theory Spec2Isabelle
  imports Main
begin

section \<open>File-backed data sources: \<^verbatim>\<open>feast/infra/offline_stores/file_source.py\<close>\<close>

text \<open>
  A shallow embedding of the three classes of \<^verbatim>\<open>file_source.py\<close>: \<^verbatim>\<open>FileOptions\<close>,
  \<^verbatim>\<open>FileSource\<close> and \<^verbatim>\<open>SavedDatasetFileStorage\<close>. Python objects are records, an
  \<^verbatim>\<open>Optional[str]\<close> is a \<open>string option\<close>, a \<^verbatim>\<open>Dict[str, str]\<close> is a map, a raised
  exception is the left injection of a sum, and a setter returns the updated record.
\<close>

subsection \<open>Exceptions\<close>

text \<open>
  The two exceptions the module raises itself. The specification calls
  \<^verbatim>\<open>ValueError\<close> a configuration error and \<^verbatim>\<open>TypeError\<close> a type-mismatch error.
\<close>

datatype error = ValueError | TypeError

subsection \<open>Collaborators imported by the module\<close>

text \<open>
  Modelled from the spec: \<^verbatim>\<open>feast.data_format.FileFormat\<close> and its wire form
  \<^verbatim>\<open>FileFormatProto\<close> are imported, not defined, by the module. The specification
  describes the format as a tagged variant compared structurally, with a parquet
  variant, and the wire form as an enumeration that may be unset.
\<close>

datatype FileFormat = ParquetFormat

datatype FileFormatProto = Format_not_set | Parquet_format

fun FileFormat_to_proto :: "FileFormat \<Rightarrow> FileFormatProto" where
  "FileFormat_to_proto ParquetFormat = Parquet_format"

fun FileFormat_from_proto :: "FileFormatProto \<Rightarrow> FileFormat option" where
  "FileFormat_from_proto Parquet_format = Some ParquetFormat"
| "FileFormat_from_proto Format_not_set = None"

text \<open>
  Modelled from the spec: the base class \<^verbatim>\<open>feast.data_source.DataSource\<close> is imported,
  not defined, by the module. Per the specification it holds the name, the three
  optional column identifiers (default empty) and the field mapping (default empty).
\<close>

record DataSource =
  name :: string
  event_timestamp_column :: string
  created_timestamp_column :: string
  field_mapping :: "string \<rightharpoonup> string"
  date_partition_column :: string

definition str_or_empty :: "string option \<Rightarrow> string" where
  "str_or_empty x = (case x of None \<Rightarrow> '''' | Some s \<Rightarrow> s)"

definition dict_or_empty :: "(string \<rightharpoonup> string) option \<Rightarrow> (string \<rightharpoonup> string)" where
  "dict_or_empty x = (case x of None \<Rightarrow> Map.empty | Some m \<Rightarrow> m)"

definition DataSource_init ::
  "string \<Rightarrow> string option \<Rightarrow> string option \<Rightarrow> (string \<rightharpoonup> string) option \<Rightarrow> string option
     \<Rightarrow> DataSource" where
  "DataSource_init nm ets cts fm dpc =
     \<lparr> name = nm,
       event_timestamp_column = str_or_empty ets,
       created_timestamp_column = str_or_empty cts,
       field_mapping = dict_or_empty fm,
       date_partition_column = str_or_empty dpc \<rparr>"

text \<open>
  Modelled from the spec: the generated protobuf classes \<^verbatim>\<open>DataSourceProto\<close> and
  \<^verbatim>\<open>DataSourceProto.FileOptions\<close> are imported, not defined, by the module. The wire
  message has the fields the specification lists; a string field is never absent, and
  a constructor argument \<^verbatim>\<open>None\<close> leaves the field at its default, the empty string or
  the unset format.
\<close>

datatype SourceType = INVALID | BATCH_FILE

record FileOptionsProto =
  pb_file_format :: FileFormatProto
  pb_file_url :: string
  pb_s3_endpoint_override :: string

record DataSourceProto =
  pb_name :: string
  pb_type :: SourceType
  pb_field_mapping :: "string \<rightharpoonup> string"
  pb_file_options :: FileOptionsProto
  pb_event_timestamp_column :: string
  pb_created_timestamp_column :: string
  pb_date_partition_column :: string

definition format_or_unset :: "FileFormatProto option \<Rightarrow> FileFormatProto" where
  "format_or_unset x = (case x of None \<Rightarrow> Format_not_set | Some f \<Rightarrow> f)"

text \<open>
  Modelled from the spec: the remote backend handle \<^verbatim>\<open>S3FileSystem\<close> is imported, not
  defined, by the module. Only its configuration is kept: the \<^verbatim>\<open>client_kwargs\<close>
  argument, which is \<^verbatim>\<open>None\<close> or a dictionary with the single key \<^verbatim>\<open>endpoint_url\<close>.
\<close>

datatype S3FileSystem = S3FileSystem (client_kwargs: "string option")

subsection \<open>Python string operations\<close>

text \<open>\<^verbatim>\<open>s.startswith(pre)\<close>.\<close>

definition startswith :: "string \<Rightarrow> string \<Rightarrow> bool" where
  "startswith s pre = (take (length pre) s = pre)"

text \<open>
  \<^verbatim>\<open>s.replace(old, new)\<close>: every non-overlapping occurrence of \<open>old\<close>, found from the
  left, is replaced. (With an empty \<open>old\<close> Python puts \<open>new\<close> before every character
  and at the end.)
\<close>

fun replace_nonempty :: "string \<Rightarrow> string \<Rightarrow> string \<Rightarrow> string" where
  "replace_nonempty old new [] = []"
| "replace_nonempty old new (c # cs) =
     (if take (length old) (c # cs) = old
      then new @ replace_nonempty old new (drop (length old - 1) cs)
      else c # replace_nonempty old new cs)"

definition replace :: "string \<Rightarrow> string \<Rightarrow> string \<Rightarrow> string" where
  "replace s old new =
     (if old = [] then concat (map (\<lambda>c. new @ [c]) s) @ new
      else replace_nonempty old new s)"

subsection \<open>\<^verbatim>\<open>FileOptions\<close>\<close>

text \<open>
  The three private attributes \<^verbatim>\<open>_file_format\<close>, \<^verbatim>\<open>_file_url\<close> and
  \<^verbatim>\<open>_s3_endpoint_override\<close> (an identifier cannot start with an underscore here, so
  the prefix is \<open>u_\<close>), the properties that read them and the setters.
\<close>

record FileOptions =
  u_file_format :: "FileFormat option"
  u_file_url :: "string option"
  u_s3_endpoint_override :: "string option"

definition FileOptions_init ::
  "FileFormat option \<Rightarrow> string option \<Rightarrow> string option \<Rightarrow> FileOptions" where
  "FileOptions_init ff url s3 =
     \<lparr> u_file_format = ff, u_file_url = url, u_s3_endpoint_override = s3 \<rparr>"

definition file_format :: "FileOptions \<Rightarrow> FileFormat option" where
  "file_format self = u_file_format self"

definition set_file_format :: "FileOptions \<Rightarrow> FileFormat option \<Rightarrow> FileOptions" where
  "set_file_format self ff = self\<lparr>u_file_format := ff\<rparr>"

definition file_url :: "FileOptions \<Rightarrow> string option" where
  "file_url self = u_file_url self"

definition set_file_url :: "FileOptions \<Rightarrow> string option \<Rightarrow> FileOptions" where
  "set_file_url self url = self\<lparr>u_file_url := url\<rparr>"

definition s3_endpoint_override :: "FileOptions \<Rightarrow> string option" where
  "s3_endpoint_override self =
     (if u_s3_endpoint_override self = Some '''' then None else u_s3_endpoint_override self)"

definition set_s3_endpoint_override :: "FileOptions \<Rightarrow> string option \<Rightarrow> FileOptions" where
  "set_s3_endpoint_override self s3 = self\<lparr>u_s3_endpoint_override := s3\<rparr>"

definition FileOptions_from_proto :: "FileOptionsProto \<Rightarrow> FileOptions" where
  "FileOptions_from_proto p =
     FileOptions_init (FileFormat_from_proto (pb_file_format p))
       (Some (pb_file_url p)) (Some (pb_s3_endpoint_override p))"

definition FileOptions_to_proto :: "FileOptions \<Rightarrow> FileOptionsProto" where
  "FileOptions_to_proto self =
     \<lparr> pb_file_format =
         format_or_unset
           (case file_format self of
              None \<Rightarrow> None
            | Some f \<Rightarrow> Some (FileFormat_to_proto f)),
       pb_file_url = str_or_empty (file_url self),
       pb_s3_endpoint_override = str_or_empty (s3_endpoint_override self) \<rparr>"

subsection \<open>\<^verbatim>\<open>FileSource\<close>\<close>

record FileSource = DataSource +
  file_options :: FileOptions

text \<open>
  \<^verbatim>\<open>name if name else path\<close>: the name when it is a non-empty string, the path
  otherwise.
\<close>

definition name_or_path :: "string option \<Rightarrow> string \<Rightarrow> string" where
  "name_or_path nm p = (case nm of None \<Rightarrow> p | Some n \<Rightarrow> if n = [] then p else n)"

text \<open>
  \<^verbatim>\<open>FileSource.__init__\<close>, the arguments in the order of the signature: path, name,
  event timestamp column, file format, created timestamp column, field mapping, date
  partition column, endpoint override.
\<close>

definition FileSource_init ::
  "string option \<Rightarrow> string option \<Rightarrow> string option \<Rightarrow> FileFormat option \<Rightarrow> string option
     \<Rightarrow> (string \<rightharpoonup> string) option \<Rightarrow> string option \<Rightarrow> string option
     \<Rightarrow> error + FileSource" where
  "FileSource_init path nm ets ff cts fm dpc s3 =
     (case path of
        None \<Rightarrow> Inl ValueError
      | Some p \<Rightarrow>
          Inr (DataSource.extend
                 (DataSource_init (name_or_path nm p) ets cts fm dpc)
                 (FileSource.fields (FileOptions_init ff (Some p) s3))))"

text \<open>The call \<^verbatim>\<open>FileSource(path=p)\<close>: every other argument at its default.\<close>

definition FileSource_of_path :: "string option \<Rightarrow> error + FileSource" where
  "FileSource_of_path path =
     FileSource_init path (Some '''') (Some '''') None (Some '''') None (Some '''') None"

text \<open>The values \<^verbatim>\<open>__eq__\<close> can be handed: a file source or anything else.\<close>

datatype py_object =
    FileSourceObj FileSource
  | OtherSourceObj DataSource
  | StrObj string
  | NoneObj

fun isinstance_FileSource :: "py_object \<Rightarrow> bool" where
  "isinstance_FileSource (FileSourceObj _) = True"
| "isinstance_FileSource _ = False"

definition path :: "FileSource \<Rightarrow> string option" where
  "path self = file_url (file_options self)"

fun FileSource_eq :: "FileSource \<Rightarrow> py_object \<Rightarrow> error + bool" where
  "FileSource_eq self (FileSourceObj other) =
     Inr (name self = name other
          \<and> file_url (file_options self) = file_url (file_options other)
          \<and> file_format (file_options self) = file_format (file_options other)
          \<and> event_timestamp_column self = event_timestamp_column other
          \<and> created_timestamp_column self = created_timestamp_column other
          \<and> field_mapping self = field_mapping other
          \<and> s3_endpoint_override (file_options self)
              = s3_endpoint_override (file_options other))"
| "FileSource_eq self _ = Inl TypeError"

definition FileSource_from_proto :: "DataSourceProto \<Rightarrow> error + FileSource" where
  "FileSource_from_proto data_source =
     FileSource_init
       (Some (pb_file_url (pb_file_options data_source)))
       (Some (pb_name data_source))
       (Some (pb_event_timestamp_column data_source))
       (FileFormat_from_proto (pb_file_format (pb_file_options data_source)))
       (Some (pb_created_timestamp_column data_source))
       (Some (pb_field_mapping data_source))
       (Some (pb_date_partition_column data_source))
       (Some (pb_s3_endpoint_override (pb_file_options data_source)))"

definition FileSource_to_proto :: "FileSource \<Rightarrow> DataSourceProto" where
  "FileSource_to_proto self =
     \<lparr> pb_name = name self,
       pb_type = BATCH_FILE,
       pb_field_mapping = field_mapping self,
       pb_file_options = FileOptions_to_proto (file_options self),
       pb_event_timestamp_column = event_timestamp_column self,
       pb_created_timestamp_column = created_timestamp_column self,
       pb_date_partition_column = date_partition_column self \<rparr>"

definition create_filesystem_and_path ::
  "string \<Rightarrow> string option \<Rightarrow> S3FileSystem option \<times> string" where
  "create_filesystem_and_path p s3 =
     (if startswith p ''s3://''
      then (Some (S3FileSystem
                    (if s3 \<noteq> None \<and> s3 \<noteq> Some '''' then s3 else None)),
            replace p ''s3://'' '''')
      else (None, p))"

text \<open>
  Mutating the nested record through the descriptor:
  \<^verbatim>\<open>source.file_options.file_url = url\<close>.
\<close>

definition FileSource_set_file_url :: "FileSource \<Rightarrow> string option \<Rightarrow> FileSource" where
  "FileSource_set_file_url self url =
     self\<lparr>file_options := set_file_url (file_options self) url\<rparr>"

subsection \<open>\<^verbatim>\<open>SavedDatasetFileStorage\<close>\<close>

record SavedDatasetFileStorage =
  sink_file_options :: FileOptions

text \<open>
  \<^verbatim>\<open>SavedDatasetFileStorage.__init__\<close>; the defaults are \<^verbatim>\<open>ParquetFormat()\<close> for the
  format and \<^verbatim>\<open>None\<close> for the endpoint override.
\<close>

definition SavedDatasetFileStorage_init ::
  "string \<Rightarrow> FileFormat option \<Rightarrow> string option \<Rightarrow> SavedDatasetFileStorage" where
  "SavedDatasetFileStorage_init p ff s3 =
     \<lparr> sink_file_options = FileOptions_init ff (Some p) s3 \<rparr>"

definition SavedDatasetFileStorage_of_path :: "string \<Rightarrow> SavedDatasetFileStorage" where
  "SavedDatasetFileStorage_of_path p =
     SavedDatasetFileStorage_init p (Some ParquetFormat) None"

text \<open>
  \<^verbatim>\<open>to_data_source\<close> passes three keyword arguments; the other five arguments of
  \<^verbatim>\<open>FileSource.__init__\<close> take their defaults.
\<close>

definition to_data_source :: "SavedDatasetFileStorage \<Rightarrow> error + FileSource" where
  "to_data_source self =
     FileSource_init
       (file_url (sink_file_options self))
       (Some '''') (Some '''')
       (file_format (sink_file_options self))
       (Some '''') None (Some '''')
       (s3_endpoint_override (sink_file_options self))"

section \<open>Properties\<close>

subsection \<open>Construction\<close>

lemma FileSource_init_fields:
  "FileSource_init (Some p) nm ets ff cts fm dpc s3 = Inr d \<Longrightarrow>
     name d = name_or_path nm p \<and>
     event_timestamp_column d = str_or_empty ets \<and>
     created_timestamp_column d = str_or_empty cts \<and>
     field_mapping d = dict_or_empty fm \<and>
     date_partition_column d = str_or_empty dpc \<and>
     file_options d = FileOptions_init ff (Some p) s3"
  by (auto simp add: FileSource_init_def DataSource_init_def DataSource.defs FileSource.defs)

lemma FileSource_init_Some:
  "\<exists>d. FileSource_init (Some p) nm ets ff cts fm dpc s3 = Inr d"
  by (simp add: FileSource_init_def)

lemma FileSource_init_None:
  "FileSource_init None nm ets ff cts fm dpc s3 = Inl ValueError"
  by (simp add: FileSource_init_def)

lemma FileSource_init_path:
  "FileSource_init (Some p) nm ets ff cts fm dpc s3 = Inr d \<Longrightarrow> path d = Some p"
  by (drule FileSource_init_fields) (simp add: path_def file_url_def FileOptions_init_def)

text \<open>
  C2, as stated, fails: the constructor rejects only an absent path. With the empty
  string as path (and a name and a timestamp column supplied) it returns a descriptor.
\<close>

theorem FileSource_init_empty_path_counterexample:
  "FileSource_init (Some '''') (Some ''driver_stats'') (Some ''event_timestamp'') None
     (Some '''') None (Some '''') None =
   Inr \<lparr> name = ''driver_stats'',
         event_timestamp_column = ''event_timestamp'',
         created_timestamp_column = '''',
         field_mapping = Map.empty,
         date_partition_column = '''',
         file_options =
           \<lparr> u_file_format = None, u_file_url = Some '''', u_s3_endpoint_override = None \<rparr> \<rparr>"
  by (simp add: FileSource_init_def DataSource_init_def FileOptions_init_def
      DataSource.defs FileSource.defs name_or_path_def str_or_empty_def dict_or_empty_def)

text \<open>
  C2, amended: construction with an absent path fails with \<^verbatim>\<open>ValueError\<close> (the
  configuration error), whatever the other arguments; with any path string, the empty
  one included, it succeeds and the descriptor has that path.
\<close>

theorem FileSource_init_path_required:
  "FileSource_init None nm ets ff cts fm dpc s3 = Inl ValueError
   \<and> (\<exists>d. FileSource_init (Some p) nm ets ff cts fm dpc s3 = Inr d \<and> path d = Some p)"
proof
  show "FileSource_init None nm ets ff cts fm dpc s3 = Inl ValueError"
    by (rule FileSource_init_None)
next
  obtain d where d: "FileSource_init (Some p) nm ets ff cts fm dpc s3 = Inr d"
    using FileSource_init_Some by blast
  with FileSource_init_path [OF d]
  show "\<exists>d. FileSource_init (Some p) nm ets ff cts fm dpc s3 = Inr d \<and> path d = Some p"
    by blast
qed

text \<open>
  C6: for every non-empty path \<open>p\<close>, a descriptor constructed from \<open>p\<close> with no name
  (the argument left out, or given as \<^verbatim>\<open>None\<close>) has the name \<open>p\<close>.
\<close>

theorem name_defaults_to_path:
  assumes "p \<noteq> []"
  shows "(\<exists>d. FileSource_of_path (Some p) = Inr d \<and> name d = p)
       \<and> (\<exists>d. FileSource_init (Some p) None ets ff cts fm dpc s3 = Inr d \<and> name d = p)"
proof
  obtain d where d: "FileSource_of_path (Some p) = Inr d"
    unfolding FileSource_of_path_def using FileSource_init_Some by blast
  from FileSource_init_fields [OF d [unfolded FileSource_of_path_def]] assms
  have "name d = p" by (simp add: name_or_path_def)
  with d show "\<exists>d. FileSource_of_path (Some p) = Inr d \<and> name d = p" by blast
next
  obtain d where d: "FileSource_init (Some p) None ets ff cts fm dpc s3 = Inr d"
    using FileSource_init_Some by blast
  from FileSource_init_fields [OF d] have "name d = p" by (simp add: name_or_path_def)
  with d show "\<exists>d. FileSource_init (Some p) None ets ff cts fm dpc s3 = Inr d \<and> name d = p"
    by blast
qed

theorem name_defaults_to_path_witness:
  "''my_features.parquet'' \<noteq> []
   \<and> (\<exists>d. FileSource_of_path (Some ''my_features.parquet'') = Inr d
          \<and> name d = ''my_features.parquet'')
   \<and> (\<exists>d. FileSource_init (Some ''my_features.parquet'') None (Some ''event_timestamp'')
            (Some ParquetFormat) None None None None = Inr d
          \<and> name d = ''my_features.parquet'')"
proof -
  have ne: "''my_features.parquet'' \<noteq> []" by simp
  from name_defaults_to_path [OF ne] ne show ?thesis by blast
qed

text \<open>
  C10: for every non-empty path \<open>p\<close>, a descriptor constructed from \<open>p\<close> with the
  empty string given as name has the name \<open>p\<close>, not the empty string.
\<close>

theorem empty_name_replaced_by_path:
  assumes "p \<noteq> []"
  shows "\<exists>d. FileSource_init (Some p) (Some '''') ets ff cts fm dpc s3 = Inr d
            \<and> name d = p \<and> name d \<noteq> ''''"
proof -
  obtain d where d: "FileSource_init (Some p) (Some '''') ets ff cts fm dpc s3 = Inr d"
    using FileSource_init_Some by blast
  from FileSource_init_fields [OF d] have "name d = p" by (simp add: name_or_path_def)
  with d assms show ?thesis by blast
qed

theorem empty_name_replaced_by_path_witness:
  "''data/stats.parquet'' \<noteq> []
   \<and> (\<exists>d. FileSource_init (Some ''data/stats.parquet'') (Some '''') (Some ''ts'') None
            (Some ''created'') None None (Some ''http://localhost:9000'') = Inr d
          \<and> name d = ''data/stats.parquet'' \<and> name d \<noteq> '''')"
proof -
  have ne: "''data/stats.parquet'' \<noteq> []" by simp
  from empty_name_replaced_by_path [OF ne] ne show ?thesis by blast
qed

text \<open>
  C9: a descriptor constructed without a name from a non-empty path \<open>p\<close> keeps the
  name \<open>p\<close> when the nested record's \<^verbatim>\<open>file_url\<close> is set to another value \<open>u\<close>
  afterwards; the path accessor then reads \<open>u\<close>.
\<close>

theorem name_kept_when_file_url_set:
  assumes "p \<noteq> []"
    and "nm = None \<or> nm = Some ''''"
    and "FileSource_init (Some p) nm ets ff cts fm dpc s3 = Inr d"
  shows "name (FileSource_set_file_url d u) = p \<and> path (FileSource_set_file_url d u) = u"
proof -
  from FileSource_init_fields [OF assms(3)] assms(2)
  have "name d = p" by (auto simp add: name_or_path_def)
  then show ?thesis
    by (simp add: FileSource_set_file_url_def set_file_url_def path_def file_url_def)
qed

theorem name_kept_when_file_url_set_witness:
  "\<exists>d. FileSource_init (Some ''old.parquet'') None None None None None None None = Inr d
      \<and> name (FileSource_set_file_url d (Some ''s3://bucket/new.parquet'')) = ''old.parquet''
      \<and> path (FileSource_set_file_url d (Some ''s3://bucket/new.parquet''))
          = Some ''s3://bucket/new.parquet''"
proof -
  have ne: "''old.parquet'' \<noteq> []" by simp
  have nm: "(None :: string option) = None \<or> (None :: string option) = Some ''''" by simp
  obtain d where
    d: "FileSource_init (Some ''old.parquet'') None None None None None None None = Inr d"
    using FileSource_init_Some by blast
  from name_kept_when_file_url_set [OF ne nm d] d show ?thesis by blast
qed

subsection \<open>Equality\<close>


text \<open>
  C5: comparing a file source with a value that is not a file source raises
  \<^verbatim>\<open>TypeError\<close> (the type-mismatch error); no truth value is returned.
\<close>

theorem FileSource_eq_other_type:
  "\<not> isinstance_FileSource x \<Longrightarrow> FileSource_eq d x = Inl TypeError"
  by (cases x) simp_all

theorem FileSource_eq_other_type_witness:
  "\<exists>d. FileSource_of_path (Some ''driver_stats.parquet'') = Inr d
      \<and> \<not> isinstance_FileSource (OtherSourceObj (DataSource_init ''bq'' None None None None))
      \<and> FileSource_eq d (OtherSourceObj (DataSource_init ''bq'' None None None None))
          = Inl TypeError
      \<and> \<not> isinstance_FileSource NoneObj
      \<and> FileSource_eq d NoneObj = Inl TypeError"
proof -
  obtain d where d: "FileSource_of_path (Some ''driver_stats.parquet'') = Inr d"
    unfolding FileSource_of_path_def using FileSource_init_Some by blast
  have a: "\<not> isinstance_FileSource (OtherSourceObj (DataSource_init ''bq'' None None None None))"
    by simp
  have b: "\<not> isinstance_FileSource NoneObj" by simp
  from FileSource_eq_other_type [OF a, of d] FileSource_eq_other_type [OF b, of d] a b d
  show ?thesis by blast
qed

subsection \<open>The nested location record\<close>

text \<open>
  C7: after the endpoint override is set to the empty string the property reads
  \<^verbatim>\<open>None\<close>, although the stored attribute is the empty string; a stored \<^verbatim>\<open>None\<close>
  reads as \<^verbatim>\<open>None\<close> too, whether set or given at construction.
\<close>

theorem s3_endpoint_override_empty_reads_absent:
  "s3_endpoint_override (set_s3_endpoint_override fo (Some '''')) = None
   \<and> u_s3_endpoint_override (set_s3_endpoint_override fo (Some '''')) = Some ''''
   \<and> s3_endpoint_override (set_s3_endpoint_override fo None) = None
   \<and> s3_endpoint_override (FileOptions_init ff url (Some '''')) = None
   \<and> s3_endpoint_override (FileOptions_init ff url None) = None"
  by (simp add: s3_endpoint_override_def set_s3_endpoint_override_def FileOptions_init_def)

subsection \<open>Resolving a path\<close>

lemma create_filesystem_and_path_local:
  "\<not> startswith p ''s3://'' \<Longrightarrow> create_filesystem_and_path p s3 = (None, p)"
  by (simp add: create_filesystem_and_path_def)

lemma create_filesystem_and_path_remote:
  "startswith p ''s3://'' \<Longrightarrow>
     create_filesystem_and_path p s3 =
       (Some (S3FileSystem (s3_endpoint_override (FileOptions_init ff url s3))),
        replace p ''s3://'' '''')"
  by (auto simp add: create_filesystem_and_path_def s3_endpoint_override_def
      FileOptions_init_def)

lemma create_filesystem_and_path_examples:
  "create_filesystem_and_path ''s3://bucket/key'' None
     = (Some (S3FileSystem None), ''bucket/key'')"
  "create_filesystem_and_path ''s3://bucket/key'' (Some ''http://localhost:9000'')
     = (Some (S3FileSystem (Some ''http://localhost:9000'')), ''bucket/key'')"
  "create_filesystem_and_path ''/local/key'' None = (None, ''/local/key'')"
  by (simp_all add: create_filesystem_and_path_def startswith_def replace_def)

text \<open>
  C4: on a path that starts with \<^verbatim>\<open>s3://\<close> and contains \<^verbatim>\<open>s3://\<close> once more, the
  returned path has lost both occurrences, since \<^verbatim>\<open>str.replace\<close> replaces every
  occurrence; the path with only the scheme prefix stripped is a different string.
\<close>

theorem create_filesystem_and_path_inner_scheme:
  "startswith ''s3://bucket/s3://key'' ''s3://''
   \<and> create_filesystem_and_path ''s3://bucket/s3://key'' None
       = (Some (S3FileSystem None), ''bucket/key'')
   \<and> drop (length ''s3://'') ''s3://bucket/s3://key'' = ''bucket/s3://key''"
  by (simp add: create_filesystem_and_path_def startswith_def replace_def)

subsection \<open>Saved dataset storage\<close>

text \<open>
  C8: a sink whose location record holds a path converts to a descriptor with the same
  path, file format and endpoint override; the conversion does not fail.
\<close>

theorem to_data_source_same_location:
  assumes "file_url (sink_file_options s) = Some p"
  shows "\<exists>d. to_data_source s = Inr d
            \<and> path d = file_url (sink_file_options s)
            \<and> file_format (file_options d) = file_format (sink_file_options s)
            \<and> s3_endpoint_override (file_options d)
                = s3_endpoint_override (sink_file_options s)"
proof -
  obtain d where d: "to_data_source s = Inr d"
    unfolding to_data_source_def assms using FileSource_init_Some by blast
  note flds = FileSource_init_fields [OF d [unfolded to_data_source_def assms]]
  have "path d = Some p"
    using flds by (simp add: path_def file_url_def FileOptions_init_def)
  moreover have "file_format (file_options d) = file_format (sink_file_options s)"
    using flds by (simp add: file_format_def FileOptions_init_def)
  moreover have "s3_endpoint_override (file_options d)
                   = s3_endpoint_override (sink_file_options s)"
    using flds by (simp add: s3_endpoint_override_def FileOptions_init_def)
  ultimately show ?thesis using d assms by simp
qed

theorem to_data_source_same_location_witness:
  "file_url (sink_file_options (SavedDatasetFileStorage_of_path ''out.parquet''))
     = Some ''out.parquet''
   \<and> (\<exists>d. to_data_source (SavedDatasetFileStorage_of_path ''out.parquet'') = Inr d
          \<and> path d = Some ''out.parquet''
          \<and> file_format (file_options d) = Some ParquetFormat
          \<and> s3_endpoint_override (file_options d) = None)"
proof -
  let ?s = "SavedDatasetFileStorage_of_path ''out.parquet''"
  have a: "file_url (sink_file_options ?s) = Some ''out.parquet''"
    by (simp add: SavedDatasetFileStorage_of_path_def SavedDatasetFileStorage_init_def
        FileOptions_init_def file_url_def)
  have b: "file_format (sink_file_options ?s) = Some ParquetFormat"
    by (simp add: SavedDatasetFileStorage_of_path_def SavedDatasetFileStorage_init_def
        FileOptions_init_def file_format_def)
  have c: "s3_endpoint_override (sink_file_options ?s) = None"
    by (simp add: SavedDatasetFileStorage_of_path_def SavedDatasetFileStorage_init_def
        FileOptions_init_def s3_endpoint_override_def)
  from to_data_source_same_location [OF a] show ?thesis
    unfolding a b c using a by simp
qed

lemma SavedDatasetFileStorage_init_has_path:
  "file_url (sink_file_options (SavedDatasetFileStorage_init p ff s3)) = Some p"
  by (simp add: SavedDatasetFileStorage_init_def FileOptions_init_def file_url_def)

subsection \<open>Serialization\<close>

text \<open>
  The round trip at the level of object states: it holds for a descriptor whose path is
  present, whose file format is present, and whose name is empty only if its path is.
\<close>

lemma roundtrip_of_state:
  assumes url: "u_file_url (file_options d) = Some p"
    and nm: "name d = [] \<longrightarrow> p = []"
    and ff: "u_file_format (file_options d) = Some f"
  shows "\<exists>d'. FileSource_from_proto (FileSource_to_proto d) = Inr d'
            \<and> FileSource_eq d' (FileSourceObj d) = Inr True"
proof -
  obtain d' where d': "FileSource_from_proto (FileSource_to_proto d) = Inr d'"
    unfolding FileSource_from_proto_def using FileSource_init_Some by blast
  note flds = FileSource_init_fields [OF d' [unfolded FileSource_from_proto_def]]
  have "name d' = name d"
    using flds url nm
    by (simp add: FileSource_to_proto_def FileOptions_to_proto_def file_url_def
        name_or_path_def str_or_empty_def)
  moreover have "file_url (file_options d') = file_url (file_options d)"
    using flds url
    by (simp add: FileSource_to_proto_def FileOptions_to_proto_def file_url_def
        FileOptions_init_def str_or_empty_def)
  moreover have "file_format (file_options d') = file_format (file_options d)"
    using flds ff
    by (cases f) (simp add: FileSource_to_proto_def FileOptions_to_proto_def file_format_def
        FileOptions_init_def format_or_unset_def)
  moreover have "event_timestamp_column d' = event_timestamp_column d"
    and "created_timestamp_column d' = created_timestamp_column d"
    and "field_mapping d' = field_mapping d"
    using flds by (simp_all add: FileSource_to_proto_def str_or_empty_def dict_or_empty_def)
  moreover have "s3_endpoint_override (file_options d')
                   = s3_endpoint_override (file_options d)"
    using flds
    by (simp add: FileSource_to_proto_def FileOptions_to_proto_def s3_endpoint_override_def
        FileOptions_init_def str_or_empty_def split: option.splits)
  ultimately show ?thesis using d' by simp
qed

text \<open>
  C1: every descriptor the constructor returns for a concrete file format decodes,
  from its own encoding, to a descriptor that \<^verbatim>\<open>__eq__\<close> finds equal to it.
\<close>

theorem roundtrip_constructed:
  assumes "FileSource_init pth nm ets (Some f) cts fm dpc s3 = Inr d"
  shows "\<exists>d'. FileSource_from_proto (FileSource_to_proto d) = Inr d'
            \<and> FileSource_eq d' (FileSourceObj d) = Inr True"
proof -
  from assms obtain p where p: "pth = Some p"
    by (cases pth) (simp_all add: FileSource_init_def)
  note flds = FileSource_init_fields [OF assms [unfolded p]]
  show ?thesis
  proof (rule roundtrip_of_state)
    show "u_file_url (file_options d) = Some p"
      using flds by (simp add: FileOptions_init_def)
    show "name d = [] \<longrightarrow> p = []"
      using flds by (simp add: name_or_path_def split: option.splits if_splits)
    show "u_file_format (file_options d) = Some f"
      using flds by (simp add: FileOptions_init_def)
  qed
qed

theorem roundtrip_constructed_witness:
  "\<exists>d. FileSource_init (Some ''driver_stats.parquet'') None (Some ''event_timestamp'')
          (Some ParquetFormat) None (Some [''a'' \<mapsto> ''b'']) None (Some '''') = Inr d
      \<and> (\<exists>d'. FileSource_from_proto (FileSource_to_proto d) = Inr d'
             \<and> FileSource_eq d' (FileSourceObj d) = Inr True)"
proof -
  obtain d where
    d: "FileSource_init (Some ''driver_stats.parquet'') None (Some ''event_timestamp'')
          (Some ParquetFormat) None (Some [''a'' \<mapsto> ''b'']) None (Some '''') = Inr d"
    using FileSource_init_Some by blast
  from roundtrip_constructed [OF d] d show ?thesis by blast
qed

text \<open>
  The round trip is a property of constructed descriptors: once the nested record's
  path has been set to \<^verbatim>\<open>None\<close>, the encoding holds the empty string, and the decoded
  descriptor, whose path is the empty string, is not equal to the mutated one.
\<close>

lemma roundtrip_after_path_cleared:
  assumes "FileSource_init (Some p) nm ets (Some f) cts fm dpc s3 = Inr d"
  shows "\<exists>d'. FileSource_from_proto (FileSource_to_proto (FileSource_set_file_url d None))
                 = Inr d'
            \<and> FileSource_eq d' (FileSourceObj (FileSource_set_file_url d None)) = Inr False"
proof -
  let ?m = "FileSource_set_file_url d None"
  obtain d' where d': "FileSource_from_proto (FileSource_to_proto ?m) = Inr d'"
    unfolding FileSource_from_proto_def using FileSource_init_Some by blast
  note flds = FileSource_init_fields [OF d' [unfolded FileSource_from_proto_def]]
  have "file_url (file_options d') \<noteq> file_url (file_options ?m)"
    using flds
    by (simp add: FileOptions_init_def file_url_def FileSource_set_file_url_def
        set_file_url_def)
  then have "FileSource_eq d' (FileSourceObj ?m) = Inr False" by simp
  with d' show ?thesis by blast
qed

end
